theory Spec2Isabelle
  imports Complex_Main "HOL-Library.AList"
begin

section \<open>The DAO governance engine (class \<open>DAOGovernance\<close>)\<close>

text \<open>
  The class keeps three JavaScript \<open>Map\<close>s: \<open>proposals\<close>, \<open>votes\<close> and \<open>members\<close>.
  A \<open>Map\<close> keeps its keys in insertion order and \<open>set\<close> on an existing key replaces the
  value in place; that is an association list with \<open>AList.update\<close>, read by \<open>map_of\<close>.
  The objects stored in the maps are mutated in place by the methods; each object is stored
  under exactly one key, so the mutation is the update of that entry.

  Every method takes the state and the clock reading \<open>now\<close> (milliseconds since the epoch,
  the value of \<open>Date.now()\<close>) and returns the outcome together with the state it leaves
  behind, also when it throws. The clock is read once per call: the few reads of one call
  are taken at the same instant. Timestamps are kept as milliseconds; the ISO strings of
  the source are a one-to-one rendering of them.

  Numbers: voting power, tallies and thresholds are finite numbers with exact arithmetic
  (type \<open>rat\<close>); IEEE rounding is not modelled. The two quotients of \<open>finalizeProposal\<close>
  are JavaScript divisions and can leave the finite numbers: \<open>x / 0\<close> is \<open>NaN\<close> for
  \<open>x = 0\<close>, \<open>Infinity\<close> for \<open>x > 0\<close> and \<open>-Infinity\<close> for \<open>x < 0\<close>, and every
  comparison with \<open>NaN\<close> is false.
\<close>

subsection \<open>JavaScript numbers\<close>

datatype jsnum = Fin rat | PosInf | NegInf | NaN

definition js_div :: "rat \<Rightarrow> rat \<Rightarrow> jsnum" where
  "js_div a b =
     (if b = 0 then (if a = 0 then NaN else if 0 < a then PosInf else NegInf)
      else Fin (a / b))"

fun js_ge :: "jsnum \<Rightarrow> rat \<Rightarrow> bool" where
  "js_ge (Fin x) t = (t \<le> x)"
| "js_ge PosInf t = True"
| "js_ge NegInf t = False"
| "js_ge NaN t = False"

subsection \<open>Data\<close>

datatype status = Active | Closed | Approved | Rejected | Executed

type_synonym jsobject = "(string \<times> string) list"

record member =
  id_m :: string
  name :: string
  votingPower :: rat
  role :: string
  verified :: bool
  joinedAt :: int
  proposalsCreated :: nat
  votesSubmitted :: nat

record tallies =
  votes_for :: rat
  votes_against :: rat
  votes_abstain :: rat

record finalization =
  quorumMet :: bool
  approvalMet :: bool
  participationRate :: jsnum
  approvalRate :: jsnum
  finalizedAt :: int

record proposal =
  id_p :: string
  title :: string
  description :: string
  proposerId :: string
  proposerName :: string
  category :: string
  status :: status
  createdAt :: int
  votingStartsAt :: int
  votingEndsAt :: int
  executionDelay :: int
  quorumThreshold :: rat
  approvalThreshold :: rat
  votes_p :: tallies
  voters :: "string list"
  result :: "finalization option"
  executedAt :: "int option"
  executionScheduledAt :: "int option"
  executionContext :: "jsobject option"

record voteRecord =
  proposalId_v :: string
  voterId_v :: string
  choice :: string
  power :: rat
  timestamp :: int

record dao =
  proposals :: "(string \<times> proposal) list"
  votes :: "(string \<times> voteRecord) list"
  members :: "(string \<times> member) list"

definition constructor :: dao where
  "constructor = \<lparr>proposals = [], votes = [], members = []\<rparr>"

text \<open>The arguments of \<open>registerMember\<close> and \<open>createProposal\<close>: a field that the
  caller leaves out is \<open>None\<close>, and the destructuring default applies.\<close>

record memberData =
  md_id :: string
  md_name :: string
  md_votingPower :: "rat option"
  md_role :: "string option"
  md_verified :: "bool option"

record proposalData =
  pd_title :: string
  pd_description :: string
  pd_proposerId :: string
  pd_category :: "string option"
  pd_votingPeriod :: "int option"
  pd_quorumThreshold :: "rat option"
  pd_approvalThreshold :: "rat option"
  pd_executionDelay :: "int option"

definition dflt :: "'a \<Rightarrow> 'a option \<Rightarrow> 'a" where
  "dflt d x = (case x of None \<Rightarrow> d | Some v \<Rightarrow> v)"

subsection \<open>Generated proposal ids\<close>

text \<open>\<open>_generateId\<close> is \<open>`PROP-${Date.now()}-${Math.random().toString(36).slice(2, 11)}`\<close>.
  The random part is an input \<open>rnd\<close> of the model: at most nine characters out of
  \<open>0-9a-z\<close>.\<close>

definition digit :: "nat \<Rightarrow> char" where
  "digit n = ''0123456789'' ! n"

fun dec :: "nat \<Rightarrow> string" where
  "dec n = (if n < 10 then [digit n] else dec (n div 10) @ [digit (n mod 10)])"

declare dec.simps [simp del]

definition toString :: "int \<Rightarrow> string" where
  "toString i = (if i < 0 then CHR ''-'' # dec (nat (- i)) else dec (nat i))"

definition generateId :: "int \<Rightarrow> string \<Rightarrow> string" where
  "generateId now rnd = ''PROP-'' @ toString now @ ''-'' @ rnd"

definition base36 :: "string \<Rightarrow> bool" where
  "base36 rnd = (length rnd \<le> 9 \<and>
     list_all (\<lambda>c. c \<in> set ''0123456789abcdefghijklmnopqrstuvwxyz'') rnd)"

subsection \<open>Errors\<close>

text \<open>The source throws \<open>new Error(message)\<close>; a thrown error is \<open>Inl message\<close>. The
  names below are the error kinds of the specification, each with the message that the
  source throws for it. A closed vote has two messages: the status check and the expiry
  check.\<close>

definition ProposerNotFoundError :: string where
  "ProposerNotFoundError = ''Proposer not found or not registered''"

definition ProposalNotFoundError :: string where
  "ProposalNotFoundError = ''Proposal not found''"

definition VoterNotFoundError :: string where
  "VoterNotFoundError = ''Voter not registered''"

definition DuplicateVoteError :: string where
  "DuplicateVoteError = ''Member has already voted on this proposal''"

definition InvalidChoiceError :: string where
  "InvalidChoiceError = ''Invalid vote choice. Must be: for, against, or abstain''"

definition AlreadyFinalizedError :: string where
  "AlreadyFinalizedError = ''Proposal already finalized''"

definition NotApprovedError :: string where
  "NotApprovedError = ''Only approved proposals can be executed''"

definition ExecutionDelayNotElapsedError :: string where
  "ExecutionDelayNotElapsedError = ''Execution delay period has not elapsed''"

definition VotingClosedError :: "string \<Rightarrow> bool" where
  "VotingClosedError e =
     (e = ''Voting period has ended for this proposal'' \<or> e = ''Voting period has ended'')"

subsection \<open>The methods\<close>

definition registerMember :: "dao \<Rightarrow> int \<Rightarrow> memberData \<Rightarrow> member \<times> dao" where
  "registerMember s now memberData =
     (let member = \<lparr>id_m = md_id memberData,
                     name = md_name memberData,
                     votingPower = dflt 1 (md_votingPower memberData),
                     role = dflt ''member'' (md_role memberData),
                     verified = dflt False (md_verified memberData),
                     joinedAt = now,
                     proposalsCreated = 0,
                     votesSubmitted = 0\<rparr>
      in (member, s\<lparr>members := AList.update (md_id memberData) member (members s)\<rparr>))"

definition createProposal ::
  "dao \<Rightarrow> int \<Rightarrow> string \<Rightarrow> proposalData \<Rightarrow> (string + proposal) \<times> dao" where
  "createProposal s now rnd proposalData =
     (case map_of (members s) (pd_proposerId proposalData) of
        None \<Rightarrow> (Inl ''Proposer not found or not registered'', s)
      | Some proposer \<Rightarrow>
          (let proposal =
                 \<lparr>id_p = generateId now rnd,
                  title = pd_title proposalData,
                  description = pd_description proposalData,
                  proposerId = pd_proposerId proposalData,
                  proposerName = name proposer,
                  category = dflt ''general'' (pd_category proposalData),
                  status = Active,
                  createdAt = now,
                  votingStartsAt = now,
                  votingEndsAt =
                    now + dflt (7 * 24 * 60 * 60 * 1000) (pd_votingPeriod proposalData),
                  executionDelay =
                    dflt (2 * 24 * 60 * 60 * 1000) (pd_executionDelay proposalData),
                  quorumThreshold = dflt (5 / 10) (pd_quorumThreshold proposalData),
                  approvalThreshold = dflt (6 / 10) (pd_approvalThreshold proposalData),
                  votes_p = \<lparr>votes_for = 0, votes_against = 0, votes_abstain = 0\<rparr>,
                  voters = [],
                  result = None,
                  executedAt = None,
                  executionScheduledAt = None,
                  executionContext = None\<rparr>
           in (Inr proposal,
               s\<lparr>proposals := AList.update (id_p proposal) proposal (proposals s),
                 members := AList.update (pd_proposerId proposalData)
                    (proposer\<lparr>proposalsCreated := proposalsCreated proposer + 1\<rparr>)
                    (members s)\<rparr>)))"

text \<open>\<open>proposal.votes[voteChoice] += votePower\<close>, for a choice that passed the check.\<close>

definition add_votes :: "string \<Rightarrow> rat \<Rightarrow> tallies \<Rightarrow> tallies" where
  "add_votes voteChoice votePower t =
     (if voteChoice = ''for'' then t\<lparr>votes_for := votes_for t + votePower\<rparr>
      else if voteChoice = ''against'' then t\<lparr>votes_against := votes_against t + votePower\<rparr>
      else if voteChoice = ''abstain'' then t\<lparr>votes_abstain := votes_abstain t + votePower\<rparr>
      else t)"

definition voteKey :: "string \<Rightarrow> string \<Rightarrow> string" where
  "voteKey proposalId voterId = proposalId @ ''-'' @ voterId"

record voteReply =
  vr_success :: bool
  vr_proposalId :: string
  vr_currentVotes :: tallies

definition vote ::
  "dao \<Rightarrow> int \<Rightarrow> string \<Rightarrow> string \<Rightarrow> string \<Rightarrow> (string + voteReply) \<times> dao" where
  "vote s now proposalId voterId voteChoice =
     (case map_of (proposals s) proposalId of
        None \<Rightarrow> (Inl ''Proposal not found'', s)
      | Some proposal \<Rightarrow>
          if status proposal \<noteq> Active
          then (Inl ''Voting period has ended for this proposal'', s)
          else
            (case map_of (members s) voterId of
               None \<Rightarrow> (Inl ''Voter not registered'', s)
             | Some voter \<Rightarrow>
                 if voterId \<in> set (voters proposal)
                 then (Inl ''Member has already voted on this proposal'', s)
                 else if now > votingEndsAt proposal
                 then (Inl ''Voting period has ended'',
                       s\<lparr>proposals :=
                           AList.update proposalId (proposal\<lparr>status := Closed\<rparr>)
                             (proposals s)\<rparr>)
                 else if voteChoice \<notin> set [''for'', ''against'', ''abstain'']
                 then (Inl ''Invalid vote choice. Must be: for, against, or abstain'', s)
                 else
                   (let votePower = votingPower voter;
                        proposal' = proposal
                          \<lparr>votes_p := add_votes voteChoice votePower (votes_p proposal),
                           voters := voters proposal @ [voterId]\<rparr>;
                        voter' = voter\<lparr>votesSubmitted := votesSubmitted voter + 1\<rparr>
                    in (Inr \<lparr>vr_success = True, vr_proposalId = proposalId,
                              vr_currentVotes = votes_p proposal'\<rparr>,
                        s\<lparr>proposals := AList.update proposalId proposal' (proposals s),
                          members := AList.update voterId voter' (members s),
                          votes := AList.update (voteKey proposalId voterId)
                             \<lparr>proposalId_v = proposalId, voterId_v = voterId,
                              choice = voteChoice, power = votePower, timestamp = now\<rparr>
                             (votes s)\<rparr>))))"

definition totalVotingPower :: "dao \<Rightarrow> rat" where
  "totalVotingPower s =
     foldl (\<lambda>sum member. sum + votingPower member) 0 (map snd (members s))"

definition finalizeProposal :: "dao \<Rightarrow> int \<Rightarrow> string \<Rightarrow> (string + proposal) \<times> dao" where
  "finalizeProposal s now proposalId =
     (case map_of (proposals s) proposalId of
        None \<Rightarrow> (Inl ''Proposal not found'', s)
      | Some proposal \<Rightarrow>
          if status proposal \<noteq> Active \<and> status proposal \<noteq> Closed
          then (Inl ''Proposal already finalized'', s)
          else
            (let totalVotes = votes_for (votes_p proposal) + votes_against (votes_p proposal)
                                + votes_abstain (votes_p proposal);
                 participationRate = js_div totalVotes (totalVotingPower s);
                 approvalRate = js_div (votes_for (votes_p proposal))
                    (votes_for (votes_p proposal) + votes_against (votes_p proposal));
                 quorumMet = js_ge participationRate (quorumThreshold proposal);
                 approvalMet = js_ge approvalRate (approvalThreshold proposal);
                 proposal1 = proposal
                   \<lparr>status := (if quorumMet \<and> approvalMet then Approved else Rejected),
                    result := Some \<lparr>quorumMet = quorumMet, approvalMet = approvalMet,
                                    participationRate = participationRate,
                                    approvalRate = approvalRate, finalizedAt = now\<rparr>\<rparr>;
                 proposal2 =
                   (if status proposal1 = Approved
                    then proposal1\<lparr>executionScheduledAt :=
                                      Some (now + executionDelay proposal1)\<rparr>
                    else proposal1)
             in (Inr proposal2,
                 s\<lparr>proposals := AList.update proposalId proposal2 (proposals s)\<rparr>)))"

record executeReply =
  er_success :: bool
  er_proposalId :: string
  er_executedAt :: int

text \<open>\<open>executionContext = {}\<close> is the parameter default: an omitted context (\<open>None\<close>)
  is the empty object. \<open>new Date(undefined).getTime()\<close> is \<open>NaN\<close> and
  \<open>Date.now() < NaN\<close> is false, so a missing \<open>executionScheduledAt\<close> does not stop the
  execution.\<close>

definition executeProposal ::
  "dao \<Rightarrow> int \<Rightarrow> string \<Rightarrow> jsobject option \<Rightarrow> (string + executeReply) \<times> dao" where
  "executeProposal s now proposalId executionContext' =
     (case map_of (proposals s) proposalId of
        None \<Rightarrow> (Inl ''Proposal not found'', s)
      | Some proposal \<Rightarrow>
          if status proposal \<noteq> Approved
          then (Inl ''Only approved proposals can be executed'', s)
          else if (case executionScheduledAt proposal of
                     None \<Rightarrow> False | Some scheduledTime \<Rightarrow> now < scheduledTime)
          then (Inl ''Execution delay period has not elapsed'', s)
          else
            (let proposal' = proposal
                   \<lparr>status := Executed, executedAt := Some now,
                    executionContext := Some (dflt [] executionContext')\<rparr>
             in (Inr \<lparr>er_success = True, er_proposalId = proposalId, er_executedAt = now\<rparr>,
                 s\<lparr>proposals := AList.update proposalId proposal' (proposals s)\<rparr>)))"

text \<open>\<open>getMember\<close> is \<open>return this.members.get(memberId)\<close>. Its outcome has the
  shape of the other methods' outcomes, \<open>Inl\<close> for a thrown error; the value returned for
  a key that the map does not hold is \<open>undefined\<close>, here \<open>None\<close>.\<close>

definition getMember :: "dao \<Rightarrow> string \<Rightarrow> string + member option" where
  "getMember s memberId = Inr (map_of (members s) memberId)"

subsection \<open>Calls and sequences of calls\<close>

text \<open>One call of a core operation, with the reply it gives. \<open>Math.random\<close> is not a
  function of the state: the random part of the id is an argument of the call.\<close>

datatype call =
  RegisterMember memberData
| CreateProposal string proposalData
| Vote string string string
| FinalizeProposal string
| ExecuteProposal string "jsobject option"

datatype reply =
  MemberReply member
| ProposalReply proposal
| VoteReply voteReply
| ExecuteReply executeReply

fun run :: "dao \<Rightarrow> int \<Rightarrow> call \<Rightarrow> (string + reply) \<times> dao" where
  "run s now (RegisterMember memberData) =
     (Inr (MemberReply (fst (registerMember s now memberData))),
      snd (registerMember s now memberData))"
| "run s now (CreateProposal rnd proposalData) =
     (map_sum id ProposalReply (fst (createProposal s now rnd proposalData)),
      snd (createProposal s now rnd proposalData))"
| "run s now (Vote proposalId voterId voteChoice) =
     (map_sum id VoteReply (fst (vote s now proposalId voterId voteChoice)),
      snd (vote s now proposalId voterId voteChoice))"
| "run s now (FinalizeProposal proposalId) =
     (map_sum id ProposalReply (fst (finalizeProposal s now proposalId)),
      snd (finalizeProposal s now proposalId))"
| "run s now (ExecuteProposal proposalId executionContext') =
     (map_sum id ExecuteReply (fst (executeProposal s now proposalId executionContext')),
      snd (executeProposal s now proposalId executionContext'))"

text \<open>What the environment guarantees for a call: the clock is past the epoch, the
  random part is what \<open>toString(36).slice(2, 11)\<close> can give, and the generated id is
  not the id of a stored proposal (the generator is taken to give unique ids; the source
  does not check).\<close>

fun admissible :: "dao \<Rightarrow> int \<Rightarrow> call \<Rightarrow> bool" where
  "admissible s now (CreateProposal rnd proposalData) =
     (0 \<le> now \<and> base36 rnd \<and> map_of (proposals s) (generateId now rnd) = None)"
| "admissible s now c = True"

fun exec :: "dao \<Rightarrow> (int \<times> call) list \<Rightarrow> dao" where
  "exec s [] = s"
| "exec s ((now, c) # cs) = exec (snd (run s now c)) cs"

fun admissible_seq :: "dao \<Rightarrow> (int \<times> call) list \<Rightarrow> bool" where
  "admissible_seq s [] = True"
| "admissible_seq s ((now, c) # cs) =
     (admissible s now c \<and> admissible_seq (snd (run s now c)) cs)"

subsection \<open>The state machine and the tally invariant\<close>


definition tally_sum :: "tallies \<Rightarrow> rat" where
  "tally_sum t = votes_for t + votes_against t + votes_abstain t"

text \<open>The sum of \<open>power\<close> over the vote records stored for a proposal.\<close>

definition power_sum :: "string \<Rightarrow> (string \<times> voteRecord) list \<Rightarrow> rat" where
  "power_sum proposalId vs =
     sum_list (map power (filter (\<lambda>v. proposalId_v v = proposalId) (map snd vs)))"

text \<open>The ids that \<open>_generateId\<close> gives when the clock is past the epoch and the
  random part has no dash.\<close>

definition generated :: "string \<Rightarrow> bool" where
  "generated k = (\<exists>n r. 0 \<le> n \<and> CHR ''-'' \<notin> set r \<and> k = generateId n r)"

text \<open>The invariant behind the tally sum: every stored proposal has a generated id and
  its tallies add up to the power of its vote records; every vote record is stored under
  the key of its proposal and voter, its proposal is stored and lists the voter.\<close>

definition tally_inv :: "dao \<Rightarrow> bool" where
  "tally_inv s =
     ((\<forall>k p. map_of (proposals s) k = Some p \<longrightarrow>
          generated k \<and> tally_sum (votes_p p) = power_sum k (votes s)) \<and>
      (\<forall>k v. (k, v) \<in> set (votes s) \<longrightarrow>
          k = voteKey (proposalId_v v) (voterId_v v) \<and>
          (\<exists>p. map_of (proposals s) (proposalId_v v) = Some p \<and>
               voterId_v v \<in> set (voters p))))"


subsection \<open>Example data\<close>

definition memberX :: memberData where
  "memberX = \<lparr>md_id = ''X'', md_name = ''X'', md_votingPower = Some 100,
              md_role = None, md_verified = None\<rparr>"

definition memberY :: memberData where
  "memberY = \<lparr>md_id = ''Y'', md_name = ''Y'', md_votingPower = Some 50,
              md_role = None, md_verified = None\<rparr>"

definition proposalX :: proposalData where
  "proposalX = \<lparr>pd_title = ''T'', pd_description = ''D'', pd_proposerId = ''X'',
                pd_category = None, pd_votingPeriod = None, pd_quorumThreshold = None,
                pd_approvalThreshold = None, pd_executionDelay = None\<rparr>"

text \<open>X (power 100) and Y (power 50) register at time 0 and X creates a proposal with
  the default thresholds at time 1000. Its id is \<open>PROP-1000-abc\<close>, voting ends at
  604801000 and the execution delay is 172800000.\<close>

definition scenario :: "(int \<times> call) list" where
  "scenario = [(0, RegisterMember memberX), (0, RegisterMember memberY),
               (1000, CreateProposal ''abc'' proposalX)]"

definition proposalA :: proposal where
  "proposalA =
     \<lparr>id_p = ''PROP-1000-abc'', title = ''T'', description = ''D'', proposerId = ''X'',
      proposerName = ''X'', category = ''general'', status = Active, createdAt = 1000,
      votingStartsAt = 1000, votingEndsAt = 604801000, executionDelay = 172800000,
      quorumThreshold = 5 / 10, approvalThreshold = 6 / 10,
      votes_p = \<lparr>votes_for = 0, votes_against = 0, votes_abstain = 0\<rparr>,
      voters = [], result = None, executedAt = None, executionScheduledAt = None,
      executionContext = None\<rparr>"

text \<open>Then X and Y both vote \<open>for\<close>.\<close>

definition voting :: "(int \<times> call) list" where
  "voting = scenario @ [(2000, Vote ''PROP-1000-abc'' ''X'' ''for''),
                        (3000, Vote ''PROP-1000-abc'' ''Y'' ''for'')]"

definition proposalVoted :: proposal where
  "proposalVoted = proposalA
     \<lparr>votes_p := \<lparr>votes_for = 150, votes_against = 0, votes_abstain = 0\<rparr>,
      voters := [''X'', ''Y'']\<rparr>"

text \<open>Then the proposal is finalized at time 4000: participation 150/150, approval
  150/150, approved, execution scheduled at 172804000.\<close>

definition approving :: "(int \<times> call) list" where
  "approving = voting @ [(4000, FinalizeProposal ''PROP-1000-abc'')]"

definition proposalApproved :: proposal where
  "proposalApproved = proposalVoted
     \<lparr>status := Approved,
      result := Some \<lparr>quorumMet = True, approvalMet = True, participationRate = Fin 1,
                      approvalRate = Fin 1, finalizedAt = 4000\<rparr>,
      executionScheduledAt := Some 172804000\<rparr>"

text \<open>The proposal finalized at time 2000 without any vote: rejected.\<close>

definition rejecting :: "(int \<times> call) list" where
  "rejecting = scenario @ [(2000, FinalizeProposal ''PROP-1000-abc'')]"

definition proposalRejected :: proposal where
  "proposalRejected = proposalA
     \<lparr>status := Rejected,
      result := Some \<lparr>quorumMet = False, approvalMet = False, participationRate = Fin 0,
                      approvalRate = NaN, finalizedAt = 2000\<rparr>\<rparr>"

text \<open>X alone registers with power 100, creates the proposal, votes \<open>for\<close>, and
  registers again with power 0, which replaces the member record.\<close>

definition zero_power :: "(int \<times> call) list" where
  "zero_power =
     [(0, RegisterMember memberX),
      (1000, CreateProposal ''abc'' proposalX),
      (2000, Vote ''PROP-1000-abc'' ''X'' ''for''),
      (3000, RegisterMember (memberX\<lparr>md_votingPower := Some 0\<rparr>))]"


section \<open>Properties\<close>

subsection \<open>Vote keys and the tally invariant\<close>







lemma tally_inv_members [simp]: "tally_inv (s\<lparr>members := m\<rparr>) = tally_inv s"
  by (simp add: tally_inv_def)













subsection \<open>The state machine\<close>





subsection \<open>Approved proposals are scheduled\<close>



subsection \<open>The example runs\<close>

lemma scenario_admissible: "admissible_seq constructor scenario"
  by code_simp

lemma scenario_proposal:
  "map_of (proposals (exec constructor scenario)) ''PROP-1000-abc'' = Some proposalA"
  by code_simp



lemma approving_proposal:
  "map_of (proposals (exec constructor approving)) ''PROP-1000-abc'' = Some proposalApproved"
  by code_simp

lemma rejecting_proposal:
  "map_of (proposals (exec constructor rejecting)) ''PROP-1000-abc'' = Some proposalRejected"
  by code_simp


section \<open>The claims\<close>

text \<open>
  C1. Claimed: when the voting power of the registered members sums to 0 at finalize time,
  \<open>finalizeProposal\<close> gives \<open>quorumMet = false\<close> and the status REJECTED, whatever the
  tallies. The source divides by the total without a guard. In the run \<open>zero_power\<close>
  member X votes \<open>for\<close> with power 100 and then registers again with power 0: the total
  is 0, the tallies are 100, the participation rate is \<open>100 / 0 = Infinity\<close>, the quorum
  counts as met and the proposal is APPROVED.
\<close>

theorem finalize_zero_total_power:
  "admissible_seq constructor zero_power
   \<and> totalVotingPower (exec constructor zero_power) = 0
   \<and> map_sum id (\<lambda>p. (status p, result p))
        (fst (finalizeProposal (exec constructor zero_power) 4000 ''PROP-1000-abc''))
       = Inr (Approved,
              Some \<lparr>quorumMet = True, approvalMet = True, participationRate = PosInf,
                    approvalRate = Fin 1, finalizedAt = 4000\<rparr>)"
  by code_simp

text \<open>
  C2. Claimed: a vote on an ACTIVE proposal after \<open>votingEndsAt\<close> fails with
  VotingClosedError and closes the proposal, for every voter and choice. The source looks
  the voter up and checks for a duplicate vote before it looks at the clock. In the state
  after \<open>scenario\<close> the proposal is ACTIVE and ends at 604801000; one millisecond later
  the unregistered voter Z gets VoterNotFoundError and the proposal stays ACTIVE.
\<close>

theorem expired_vote_unregistered_voter:
  "map_option (\<lambda>p. (status p, votingEndsAt p))
     (map_of (proposals (exec constructor scenario)) ''PROP-1000-abc'')
     = Some (Active, 604801000)
   \<and> fst (vote (exec constructor scenario) 604801001 ''PROP-1000-abc'' ''Z'' ''for'')
     = Inl VoterNotFoundError
   \<and> \<not> VotingClosedError VoterNotFoundError
   \<and> map_option status
       (map_of (proposals
          (snd (vote (exec constructor scenario) 604801001 ''PROP-1000-abc'' ''Z'' ''for'')))
        ''PROP-1000-abc'')
     = Some Active"
  by code_simp

text \<open>
  C2, amended. A vote on an ACTIVE proposal after \<open>votingEndsAt\<close> by a registered member
  who has not voted on it fails with VotingClosedError and sets the status to CLOSED, for
  every choice, valid or not. For an unregistered voter it fails with VoterNotFoundError,
  for a member who has already voted with DuplicateVoteError, and both leave the state as
  it was.
\<close>

theorem vote_after_voting_end:
  assumes "map_of (proposals s) pid = Some p" and "status p = Active"
    and "votingEndsAt p < now"
  shows "VotingClosedError ''Voting period has ended'' \<and>
     vote s now pid vid ch =
       (case map_of (members s) vid of
          None \<Rightarrow> (Inl VoterNotFoundError, s)
        | Some m \<Rightarrow>
            if vid \<in> set (voters p) then (Inl DuplicateVoteError, s)
            else (Inl ''Voting period has ended'',
                  s\<lparr>proposals := AList.update pid (p\<lparr>status := Closed\<rparr>) (proposals s)\<rparr>))"
  using assms
  by (simp add: vote_def VotingClosedError_def VoterNotFoundError_def DuplicateVoteError_def
      split: option.splits)

theorem vote_after_voting_end_witness:
  "status proposalA = Active \<and> votingEndsAt proposalA < 604801001
   \<and> vote (exec constructor scenario) 604801001 ''PROP-1000-abc'' ''Y'' ''maybe'' =
       (Inl ''Voting period has ended'',
        (exec constructor scenario)\<lparr>proposals :=
           AList.update ''PROP-1000-abc'' (proposalA\<lparr>status := Closed\<rparr>)
             (proposals (exec constructor scenario))\<rparr>)"
proof -
  have a: "status proposalA = Active" and e: "votingEndsAt proposalA < 604801001"
    by (simp_all add: proposalA_def)
  have m: "map_option votingPower (map_of (members (exec constructor scenario)) ''Y'') = Some 50"
    by code_simp
  have v: "''Y'' \<notin> set (voters proposalA)" by (simp add: proposalA_def)
  from vote_after_voting_end [OF scenario_proposal a e, of "''Y''" "''maybe''"] m v a e
  show ?thesis by (auto split: option.splits)
qed




text \<open>
  C4. A proposal with \<open>votes.for = 0\<close> and \<open>votes.against = 0\<close> that can be finalized
  (status ACTIVE or CLOSED) is finalized with \<open>approvalMet = false\<close>: the approval rate
  is \<open>0 / 0 = NaN\<close> and \<open>NaN >= approvalThreshold\<close> is false for every threshold. The
  call returns the proposal, now REJECTED, and stores it.
\<close>

theorem finalize_without_for_against:
  assumes "map_of (proposals s) pid = Some p"
    and "status p = Active \<or> status p = Closed"
    and "votes_for (votes_p p) = 0" and "votes_against (votes_p p) = 0"
  shows "\<exists>p' r. finalizeProposal s now pid =
            (Inr p', s\<lparr>proposals := AList.update pid p' (proposals s)\<rparr>)
          \<and> result p' = Some r \<and> \<not> approvalMet r \<and> status p' = Rejected"
  using assms
  by (auto simp: finalizeProposal_def Let_def js_div_def)

theorem finalize_without_for_against_witness:
  "(status proposalA = Active \<or> status proposalA = Closed)
   \<and> votes_for (votes_p proposalA) = 0 \<and> votes_against (votes_p proposalA) = 0
   \<and> (\<exists>p' r. finalizeProposal (exec constructor scenario) 2000 ''PROP-1000-abc'' =
            (Inr p', (exec constructor scenario)\<lparr>proposals :=
                AList.update ''PROP-1000-abc'' p' (proposals (exec constructor scenario))\<rparr>)
          \<and> result p' = Some r \<and> \<not> approvalMet r \<and> status p' = Rejected)"
proof -
  have a: "status proposalA = Active \<or> status proposalA = Closed"
    and f: "votes_for (votes_p proposalA) = 0"
    and g: "votes_against (votes_p proposalA) = 0"
    by (simp_all add: proposalA_def)
  from finalize_without_for_against [OF scenario_proposal a f g, of 2000] a f g
  show ?thesis by blast
qed

text \<open>
  C5. \<open>finalizeProposal\<close> on a proposal that is APPROVED, REJECTED or EXECUTED fails with
  AlreadyFinalizedError and the state after the call is the state before it: every
  proposal, member and vote record.
\<close>

theorem finalize_finalized_fails:
  assumes "map_of (proposals s) pid = Some p"
    and "status p = Approved \<or> status p = Rejected \<or> status p = Executed"
  shows "finalizeProposal s now pid = (Inl AlreadyFinalizedError, s)"
  using assms
  by (auto simp: finalizeProposal_def AlreadyFinalizedError_def)

theorem finalize_finalized_fails_witness:
  "status proposalRejected = Rejected
   \<and> finalizeProposal (exec constructor rejecting) 3000 ''PROP-1000-abc''
     = (Inl AlreadyFinalizedError, exec constructor rejecting)"
proof -
  have r: "status proposalRejected = Rejected" by (simp add: proposalRejected_def)
  then have "status proposalRejected = Approved \<or> status proposalRejected = Rejected
      \<or> status proposalRejected = Executed" by simp
  from finalize_finalized_fails [OF rejecting_proposal this, of 3000] r
  show ?thesis by simp
qed





text \<open>
  C8. Claimed: \<open>executeProposal\<close> fails with NotApprovedError exactly when the status is
  not APPROVED, with ExecutionDelayNotElapsedError exactly when the clock is before
  \<open>executionScheduledAt\<close>, and otherwise marks the proposal EXECUTED, stores the context
  and returns it to the caller. The value returned is
  \<open>{success: true, proposalId, executedAt}\<close>: two executions of the approved proposal
  that differ only in the context return the same value.
\<close>

theorem execute_reply_without_context:
  "fst (executeProposal (exec constructor approving) 172804000 ''PROP-1000-abc''
          (Some [(''action'', ''mint'')]))
     = Inr \<lparr>er_success = True, er_proposalId = ''PROP-1000-abc'', er_executedAt = 172804000\<rparr>
   \<and> fst (executeProposal (exec constructor approving) 172804000 ''PROP-1000-abc''
          (Some [(''action'', ''burn'')]))
     = Inr \<lparr>er_success = True, er_proposalId = ''PROP-1000-abc'', er_executedAt = 172804000\<rparr>"
  by code_simp

text \<open>
  C8, amended. For a stored proposal, \<open>executeProposal\<close> fails with NotApprovedError
  exactly when the status is not APPROVED; for an APPROVED proposal it fails with
  ExecutionDelayNotElapsedError exactly when the clock is before \<open>executionScheduledAt\<close>;
  otherwise it succeeds: the status becomes EXECUTED, \<open>executedAt\<close> the clock reading,
  the context is stored on the proposal as given (the empty object when it is omitted), and
  the reply is \<open>{success: true, proposalId, executedAt}\<close>, without the context.
\<close>

theorem executeProposal_outcome:
  assumes "map_of (proposals s) pid = Some p"
  shows "((fst (executeProposal s now pid ctx) = Inl NotApprovedError)
            = (status p \<noteq> Approved))
     \<and> (status p = Approved \<longrightarrow>
          (fst (executeProposal s now pid ctx) = Inl ExecutionDelayNotElapsedError)
            = (\<exists>t. executionScheduledAt p = Some t \<and> now < t))
     \<and> (status p = Approved \<and> \<not> (\<exists>t. executionScheduledAt p = Some t \<and> now < t) \<longrightarrow>
          executeProposal s now pid ctx =
            (Inr \<lparr>er_success = True, er_proposalId = pid, er_executedAt = now\<rparr>,
             s\<lparr>proposals := AList.update pid
                  (p\<lparr>status := Executed, executedAt := Some now,
                     executionContext := Some (dflt [] ctx)\<rparr>) (proposals s)\<rparr>))"
  using assms
  by (auto simp: executeProposal_def Let_def NotApprovedError_def
      ExecutionDelayNotElapsedError_def split: option.splits)

theorem executeProposal_outcome_witness:
  "status proposalApproved = Approved
   \<and> executionScheduledAt proposalApproved = Some 172804000
   \<and> fst (executeProposal (exec constructor approving) 172803999 ''PROP-1000-abc''
           (Some [(''action'', ''mint'')])) = Inl ExecutionDelayNotElapsedError
   \<and> executeProposal (exec constructor approving) 172804000 ''PROP-1000-abc''
           (Some [(''action'', ''mint'')]) =
       (Inr \<lparr>er_success = True, er_proposalId = ''PROP-1000-abc'',
             er_executedAt = 172804000\<rparr>,
        (exec constructor approving)\<lparr>proposals := AList.update ''PROP-1000-abc''
           (proposalApproved\<lparr>status := Executed, executedAt := Some 172804000,
              executionContext := Some [(''action'', ''mint'')]\<rparr>)
           (proposals (exec constructor approving))\<rparr>)"
proof -
  have a: "status proposalApproved = Approved"
    and t: "executionScheduledAt proposalApproved = Some 172804000"
    by (simp_all add: proposalApproved_def)
  from executeProposal_outcome [OF approving_proposal, of 172803999 "Some [(''action'', ''mint'')]"]
    executeProposal_outcome [OF approving_proposal, of 172804000 "Some [(''action'', ''mint'')]"]
    a t
  show ?thesis by (simp add: dflt_def)
qed

text \<open>
  C9. Claimed: \<open>getMember\<close> fails with a NotFoundError for an id that is not registered.
  The method returns \<open>this.members.get(memberId)\<close> and throws nothing: for the id Z,
  which nobody registered in \<open>scenario\<close>, it returns \<open>undefined\<close>.
\<close>

theorem getMember_unknown_id:
  "map_of (members (exec constructor scenario)) ''Z'' = None
   \<and> getMember (exec constructor scenario) ''Z'' = Inr None"
  by code_simp

text \<open>
  C9, amended. \<open>getMember(id)\<close> returns the member record stored under the id when there
  is one, in particular the record that \<open>registerMember\<close> has just stored, and returns
  \<open>undefined\<close>, without an error, when no member with that id is registered.
\<close>

theorem getMember_outcome:
  "(map_of (members s) memberId = Some m \<longrightarrow> getMember s memberId = Inr (Some m))
   \<and> (map_of (members s) memberId = None \<longrightarrow> getMember s memberId = Inr None)
   \<and> getMember (snd (registerMember s now memberData)) (md_id memberData)
       = Inr (Some (fst (registerMember s now memberData)))"
  by (simp add: getMember_def registerMember_def Let_def AList.update_conv')

theorem getMember_outcome_witness:
  "map_of (members (exec constructor scenario)) ''Y''
     = Some \<lparr>id_m = ''Y'', name = ''Y'', votingPower = 50, role = ''member'',
             verified = False, joinedAt = 0, proposalsCreated = 0, votesSubmitted = 0\<rparr>
   \<and> getMember (exec constructor scenario) ''Y''
     = Inr (Some \<lparr>id_m = ''Y'', name = ''Y'', votingPower = 50, role = ''member'',
                  verified = False, joinedAt = 0, proposalsCreated = 0, votesSubmitted = 0\<rparr>)
   \<and> getMember (exec constructor scenario) ''Z'' = Inr None"
proof -
  have y: "map_of (members (exec constructor scenario)) ''Y''
     = Some \<lparr>id_m = ''Y'', name = ''Y'', votingPower = 50, role = ''member'',
             verified = False, joinedAt = 0, proposalsCreated = 0, votesSubmitted = 0\<rparr>"
    by code_simp
  have z: "map_of (members (exec constructor scenario)) ''Z'' = None"
    by code_simp
  from getMember_outcome [of "exec constructor scenario" "''Y''"] y
    getMember_outcome [of "exec constructor scenario" "''Z''"] z
  show ?thesis by simp
qed



end
